theory Spec2Isabelle
  imports Main "HOL-Library.Sublist"
begin

section \<open>Python values the client formats into URLs\<close>

text \<open>
  The client formats Python integers into URL paths in two ways: \<^verbatim>\<open>f"{n}"\<close>, the decimal
  rendering of \<^verbatim>\<open>str(n)\<close>, and \<^verbatim>\<open>f"{n:02d}"\<close>, the decimal rendering with sign-aware zero
  padding to a minimum width of two characters. Python integers are unbounded, so they are
  \<^typ>\<open>int\<close> here; Python strings are \<^typ>\<open>string\<close>.
\<close>

definition digit_char :: "nat \<Rightarrow> char" where
  "digit_char d = ''0123456789'' ! d"

fun str_nat :: "nat \<Rightarrow> string" where
  "str_nat n = (if n < 10 then [digit_char n] else str_nat (n div 10) @ [digit_char (n mod 10)])"

declare str_nat.simps [simp del]

definition str_int :: "int \<Rightarrow> string" where
  "str_int i = (if i < 0 then CHR ''-'' # str_nat (nat (- i)) else str_nat (nat i))"

text \<open>
  \<^verbatim>\<open>f"{n:02d}"\<close>: the zeros go between the sign and the digits, and the sign counts towards
  the width, as Python's format specification says for the \<^verbatim>\<open>0\<close> flag.
\<close>

definition format_02d :: "int \<Rightarrow> string" where
  "format_02d i =
     (let sign = (if i < 0 then ''-'' else '''');
          digits = str_nat (nat \<bar>i\<bar>)
      in sign @ replicate (2 - (length sign + length digits)) CHR ''0'' @ digits)"

text \<open>\<^verbatim>\<open>sep.join(parts)\<close> on a list of strings.\<close>

fun join :: "string \<Rightarrow> string list \<Rightarrow> string" where
  "join sep [] = []"
| "join sep [x] = x"
| "join sep (x # y # ys) = x @ sep @ join sep (y # ys)"

text \<open>
  Truthiness of an \<^verbatim>\<open>Optional[str]\<close>: \<^verbatim>\<open>None\<close> and the empty string are falsy, every other
  string is truthy. This is what \<^verbatim>\<open>if state:\<close> and \<^verbatim>\<open>if not api_key:\<close> test.
\<close>

fun truthy :: "string option \<Rightarrow> bool" where
  "truthy None = False"
| "truthy (Some s) = (s \<noteq> [])"

section \<open>The world outside the client\<close>

text \<open>
  Exceptions are values. \<open>ValueError\<close> is raised by the constructor, \<open>Exception\<close> by
  \<^verbatim>\<open>_request\<close> on a bad status; \<open>JSONDecodeError\<close> is what \<^verbatim>\<open>response.json()\<close> raises on a
  body that is not JSON, and \<open>NetworkError\<close> stands for whatever the HTTP library raises
  when the GET itself fails.
\<close>

datatype error =
    ValueError string
  | Exception string
  | JSONDecodeError string
  | NetworkError string

record http_request =
  req_url :: string
  req_headers :: "(string \<times> string) list"

record response =
  status_code :: int
  response_text :: string

text \<open>
  The HTTP library and the Python built-ins are not code of the repository: they are
  parameters. \<open>http_get\<close> answers a GET (\<open>Inl\<close>: the request failed on the network) and
  \<open>json_loads\<close> is the JSON decoder behind \<^verbatim>\<open>response.json()\<close> (\<open>Inl\<close>: the body is not
  valid JSON). The type \<open>'j\<close> is the type of decoded JSON values.
\<close>

record 'j world =
  http_get :: "http_request \<Rightarrow> string + response"
  json_loads :: "string \<Rightarrow> string + 'j"

text \<open>
  What a call does: the requests it put on the network, in order, and its result
  (\<open>Inl\<close>: the exception it raised).
\<close>

record 'a outcome =
  sent :: "http_request list"
  result :: "error + 'a"

section \<open>meteocat\_client.py\<close>

definition XEMA_BASE_URL :: string where
  "XEMA_BASE_URL = ''https://api.meteo.cat/xema/v1''"

definition PRONOSTIC_BASE_URL :: string where
  "PRONOSTIC_BASE_URL = ''https://api.meteo.cat/pronostic/v1''"

definition REFERENCIA_BASE_URL :: string where
  "REFERENCIA_BASE_URL = ''https://api.meteo.cat/referencia/v1''"

record client =
  api_key :: string
  headers :: "(string \<times> string) list"

text \<open>
  \<^verbatim>\<open>MeteocatClient.__init__\<close>. The argument is annotated \<^verbatim>\<open>str\<close>, but the check
  \<^verbatim>\<open>if not api_key\<close> also catches \<^verbatim>\<open>None\<close>, so the argument is a \<^typ>\<open>string option\<close>.
  The constructor touches no network: its outcome has nothing sent.
\<close>

definition MeteocatClient :: "string option \<Rightarrow> client outcome" where
  "MeteocatClient key =
     (if \<not> truthy key
      then \<lparr>sent = [], result = Inl (ValueError ''METEOCAT_API_KEY is required'')\<rparr>
      else \<lparr>sent = [],
            result = Inr \<lparr>api_key = the key,
                          headers = [(''x-api-key'', the key), (''Accept'', ''application/json'')]\<rparr>\<rparr>)"

text \<open>
  \<^verbatim>\<open>MeteocatClient._request\<close>. Every method returns the client as it is after the call
  together with the outcome, so that a method that changed \<^verbatim>\<open>self\<close> would show.
\<close>

definition request :: "'j world \<Rightarrow> client \<Rightarrow> string \<Rightarrow> client \<times> 'j outcome" where
  "request w self url =
     (let req = \<lparr>req_url = url, req_headers = headers self\<rparr> in
      case http_get w req of
        Inl e \<Rightarrow> (self, \<lparr>sent = [req], result = Inl (NetworkError e)\<rparr>)
      | Inr response \<Rightarrow>
          if status_code response \<noteq> 200
          then (self, \<lparr>sent = [req],
                       result = Inl (Exception (''Meteocat API error ('' @ str_int (status_code response)
                                                 @ ''): '' @ response_text response))\<rparr>)
          else (self, \<lparr>sent = [req],
                       result = (case json_loads w (response_text response) of
                                   Inl e \<Rightarrow> Inl (JSONDecodeError e)
                                 | Inr v \<Rightarrow> Inr v)\<rparr>))"

subsection \<open>Reference data\<close>

definition get_municipalities :: "'j world \<Rightarrow> client \<Rightarrow> client \<times> 'j outcome" where
  "get_municipalities w self = request w self (REFERENCIA_BASE_URL @ ''/municipis'')"

definition get_regions :: "'j world \<Rightarrow> client \<Rightarrow> client \<times> 'j outcome" where
  "get_regions w self = request w self (REFERENCIA_BASE_URL @ ''/comarques'')"

definition get_weather_symbols :: "'j world \<Rightarrow> client \<Rightarrow> client \<times> 'j outcome" where
  "get_weather_symbols w self = request w self (REFERENCIA_BASE_URL @ ''/simbols'')"

subsection \<open>Station data (XEMA)\<close>

definition get_all_stations ::
  "'j world \<Rightarrow> client \<Rightarrow> string option \<Rightarrow> string option \<Rightarrow> client \<times> 'j outcome" where
  "get_all_stations w self state date =
     (let url = XEMA_BASE_URL @ ''/estacions/metadades'';
          params = [];
          params = (if truthy state then params @ [''estat='' @ the state] else params);
          params = (if truthy date then params @ [''data='' @ the date] else params);
          url = (if params \<noteq> [] then url @ ''?'' @ join ''&'' params else url)
      in request w self url)"

definition get_station :: "'j world \<Rightarrow> client \<Rightarrow> string \<Rightarrow> client \<times> 'j outcome" where
  "get_station w self station_code =
     request w self (XEMA_BASE_URL @ ''/estacions/'' @ station_code @ ''/metadades'')"

definition get_station_variables ::
  "'j world \<Rightarrow> client \<Rightarrow> string \<Rightarrow> string option \<Rightarrow> client \<times> 'j outcome" where
  "get_station_variables w self station_code state =
     (let url = XEMA_BASE_URL @ ''/estacions/'' @ station_code @ ''/variables/metadades'';
          url = (if truthy state then url @ ''?estat='' @ the state else url)
      in request w self url)"

definition get_all_variables :: "'j world \<Rightarrow> client \<Rightarrow> client \<times> 'j outcome" where
  "get_all_variables w self = request w self (XEMA_BASE_URL @ ''/variables/metadades'')"

definition get_latest_readings ::
  "'j world \<Rightarrow> client \<Rightarrow> int \<Rightarrow> string option \<Rightarrow> client \<times> 'j outcome" where
  "get_latest_readings w self variable_code station_code =
     (let url = XEMA_BASE_URL @ ''/variables/mesurades/'' @ str_int variable_code @ ''/ultimes'';
          url = (if truthy station_code then url @ ''?codiEstacio='' @ the station_code else url)
      in request w self url)"

definition get_readings ::
  "'j world \<Rightarrow> client \<Rightarrow> int \<Rightarrow> int \<Rightarrow> int \<Rightarrow> int \<Rightarrow> string option \<Rightarrow> client \<times> 'j outcome" where
  "get_readings w self variable_code year month day station_code =
     (let month_str = format_02d month;
          day_str = format_02d day;
          url = XEMA_BASE_URL @ ''/variables/mesurades/'' @ str_int variable_code @ ''/''
                @ str_int year @ ''/'' @ month_str @ ''/'' @ day_str;
          url = (if truthy station_code then url @ ''?codiEstacio='' @ the station_code else url)
      in request w self url)"

subsection \<open>Forecasts\<close>

definition get_municipal_forecast_72h :: "'j world \<Rightarrow> client \<Rightarrow> string \<Rightarrow> client \<times> 'j outcome" where
  "get_municipal_forecast_72h w self municipality_code =
     request w self (PRONOSTIC_BASE_URL @ ''/municipalHoraria/'' @ municipality_code)"

definition get_municipal_forecast_8days :: "'j world \<Rightarrow> client \<Rightarrow> string \<Rightarrow> client \<times> 'j outcome" where
  "get_municipal_forecast_8days w self municipality_code =
     request w self (PRONOSTIC_BASE_URL @ ''/municipal/'' @ municipality_code)"

definition get_general_forecast ::
  "'j world \<Rightarrow> client \<Rightarrow> int \<Rightarrow> int \<Rightarrow> int \<Rightarrow> client \<times> 'j outcome" where
  "get_general_forecast w self year month day =
     (let month_str = format_02d month;
          day_str = format_02d day
      in request w self (PRONOSTIC_BASE_URL @ ''/catalunya/'' @ str_int year @ ''/''
                         @ month_str @ ''/'' @ day_str))"

definition get_regional_forecast ::
  "'j world \<Rightarrow> client \<Rightarrow> int \<Rightarrow> int \<Rightarrow> int \<Rightarrow> client \<times> 'j outcome" where
  "get_regional_forecast w self year month day =
     (let month_str = format_02d month;
          day_str = format_02d day
      in request w self (PRONOSTIC_BASE_URL @ ''/comarcal/'' @ str_int year @ ''/''
                         @ month_str @ ''/'' @ day_str))"

definition get_uvi_forecast :: "'j world \<Rightarrow> client \<Rightarrow> string \<Rightarrow> client \<times> 'j outcome" where
  "get_uvi_forecast w self municipality_code =
     request w self (PRONOSTIC_BASE_URL @ ''/uvi/'' @ municipality_code)"

subsection \<open>The fourteen operations as one call table\<close>

text \<open>
  An operation together with its arguments, and the method call it stands for. Statements
  about every operation quantify over this type.
\<close>

datatype operation =
    Get_municipalities
  | Get_regions
  | Get_weather_symbols
  | Get_all_stations "string option" "string option"
  | Get_station string
  | Get_station_variables string "string option"
  | Get_all_variables
  | Get_latest_readings int "string option"
  | Get_readings int int int int "string option"
  | Get_municipal_forecast_72h string
  | Get_municipal_forecast_8days string
  | Get_general_forecast int int int
  | Get_regional_forecast int int int
  | Get_uvi_forecast string

fun invoke :: "'j world \<Rightarrow> client \<Rightarrow> operation \<Rightarrow> client \<times> 'j outcome" where
  "invoke w c Get_municipalities = get_municipalities w c"
| "invoke w c Get_regions = get_regions w c"
| "invoke w c Get_weather_symbols = get_weather_symbols w c"
| "invoke w c (Get_all_stations state date) = get_all_stations w c state date"
| "invoke w c (Get_station station_code) = get_station w c station_code"
| "invoke w c (Get_station_variables station_code state) = get_station_variables w c station_code state"
| "invoke w c Get_all_variables = get_all_variables w c"
| "invoke w c (Get_latest_readings variable_code station_code) =
     get_latest_readings w c variable_code station_code"
| "invoke w c (Get_readings variable_code year month day station_code) =
     get_readings w c variable_code year month day station_code"
| "invoke w c (Get_municipal_forecast_72h municipality_code) =
     get_municipal_forecast_72h w c municipality_code"
| "invoke w c (Get_municipal_forecast_8days municipality_code) =
     get_municipal_forecast_8days w c municipality_code"
| "invoke w c (Get_general_forecast year month day) = get_general_forecast w c year month day"
| "invoke w c (Get_regional_forecast year month day) = get_regional_forecast w c year month day"
| "invoke w c (Get_uvi_forecast municipality_code) = get_uvi_forecast w c municipality_code"

section \<open>server.py\<close>

text \<open>
  The module reads the credential from the environment once (\<open>None\<close>: the variable is not
  set) and constructs the one client only when the credential is truthy.
\<close>

definition server_client :: "string option \<Rightarrow> client option outcome" where
  "server_client env_api_key =
     (if truthy env_api_key
      then (let r = MeteocatClient env_api_key
            in \<lparr>sent = sent r,
                result = (case result r of Inl e \<Rightarrow> Inl e | Inr c \<Rightarrow> Inr (Some c))\<rparr>)
      else \<lparr>sent = [], result = Inr None\<rparr>)"

definition not_configured :: string where
  "not_configured = ''Error: Server not configured (missing API key)''"

text \<open>
  The two lines every tool ends with: \<^verbatim>\<open>result = await client.op(...)\<close> and
  \<^verbatim>\<open>return str(result)\<close>, where \<open>str\<close> is Python's built-in on a decoded value, a
  parameter like the decoder. An exception of the client propagates. A tool returns the
  module's client as it is after the call together with its outcome.
\<close>

definition stringify :: "('j \<Rightarrow> string) \<Rightarrow> client \<times> 'j outcome \<Rightarrow> client option \<times> string outcome" where
  "stringify str r =
     (Some (fst r),
      \<lparr>sent = sent (snd r),
       result = (case result (snd r) of Inl e \<Rightarrow> Inl e | Inr v \<Rightarrow> Inr (str v))\<rparr>)"

text \<open>
  A client object is always truthy, so \<^verbatim>\<open>if not client\<close> holds exactly when the module's
  client is \<^verbatim>\<open>None\<close>.
\<close>

definition tool_get_municipalities ::
  "'j world \<Rightarrow> ('j \<Rightarrow> string) \<Rightarrow> client option \<Rightarrow> client option \<times> string outcome" where
  "tool_get_municipalities w str client =
     (case client of
        None \<Rightarrow> (client, \<lparr>sent = [], result = Inr not_configured\<rparr>)
      | Some c \<Rightarrow> stringify str (get_municipalities w c))"

definition tool_get_regions ::
  "'j world \<Rightarrow> ('j \<Rightarrow> string) \<Rightarrow> client option \<Rightarrow> client option \<times> string outcome" where
  "tool_get_regions w str client =
     (case client of
        None \<Rightarrow> (client, \<lparr>sent = [], result = Inr not_configured\<rparr>)
      | Some c \<Rightarrow> stringify str (get_regions w c))"

definition tool_get_weather_symbols ::
  "'j world \<Rightarrow> ('j \<Rightarrow> string) \<Rightarrow> client option \<Rightarrow> client option \<times> string outcome" where
  "tool_get_weather_symbols w str client =
     (case client of
        None \<Rightarrow> (client, \<lparr>sent = [], result = Inr not_configured\<rparr>)
      | Some c \<Rightarrow> stringify str (get_weather_symbols w c))"

definition tool_get_all_stations ::
  "'j world \<Rightarrow> ('j \<Rightarrow> string) \<Rightarrow> client option \<Rightarrow> string option \<Rightarrow> string option \<Rightarrow> client option \<times> string outcome" where
  "tool_get_all_stations w str client state date =
     (case client of
        None \<Rightarrow> (client, \<lparr>sent = [], result = Inr not_configured\<rparr>)
      | Some c \<Rightarrow> stringify str (get_all_stations w c state date))"

definition tool_get_station ::
  "'j world \<Rightarrow> ('j \<Rightarrow> string) \<Rightarrow> client option \<Rightarrow> string \<Rightarrow> client option \<times> string outcome" where
  "tool_get_station w str client station_code =
     (case client of
        None \<Rightarrow> (client, \<lparr>sent = [], result = Inr not_configured\<rparr>)
      | Some c \<Rightarrow> stringify str (get_station w c station_code))"

definition tool_get_all_variables ::
  "'j world \<Rightarrow> ('j \<Rightarrow> string) \<Rightarrow> client option \<Rightarrow> client option \<times> string outcome" where
  "tool_get_all_variables w str client =
     (case client of
        None \<Rightarrow> (client, \<lparr>sent = [], result = Inr not_configured\<rparr>)
      | Some c \<Rightarrow> stringify str (get_all_variables w c))"

definition tool_get_station_variables ::
  "'j world \<Rightarrow> ('j \<Rightarrow> string) \<Rightarrow> client option \<Rightarrow> string \<Rightarrow> string option \<Rightarrow> client option \<times> string outcome" where
  "tool_get_station_variables w str client station_code state =
     (case client of
        None \<Rightarrow> (client, \<lparr>sent = [], result = Inr not_configured\<rparr>)
      | Some c \<Rightarrow> stringify str (get_station_variables w c station_code state))"

definition tool_get_latest_readings ::
  "'j world \<Rightarrow> ('j \<Rightarrow> string) \<Rightarrow> client option \<Rightarrow> int \<Rightarrow> string option \<Rightarrow> client option \<times> string outcome" where
  "tool_get_latest_readings w str client variable_code station_code =
     (case client of
        None \<Rightarrow> (client, \<lparr>sent = [], result = Inr not_configured\<rparr>)
      | Some c \<Rightarrow> stringify str (get_latest_readings w c variable_code station_code))"

definition tool_get_readings ::
  "'j world \<Rightarrow> ('j \<Rightarrow> string) \<Rightarrow> client option \<Rightarrow> int \<Rightarrow> int \<Rightarrow> int \<Rightarrow> int \<Rightarrow> string option \<Rightarrow> client option \<times> string outcome" where
  "tool_get_readings w str client variable_code year month day station_code =
     (case client of
        None \<Rightarrow> (client, \<lparr>sent = [], result = Inr not_configured\<rparr>)
      | Some c \<Rightarrow> stringify str (get_readings w c variable_code year month day station_code))"

definition tool_get_municipal_forecast_72h ::
  "'j world \<Rightarrow> ('j \<Rightarrow> string) \<Rightarrow> client option \<Rightarrow> string \<Rightarrow> client option \<times> string outcome" where
  "tool_get_municipal_forecast_72h w str client municipality_code =
     (case client of
        None \<Rightarrow> (client, \<lparr>sent = [], result = Inr not_configured\<rparr>)
      | Some c \<Rightarrow> stringify str (get_municipal_forecast_72h w c municipality_code))"

definition tool_get_municipal_forecast_8days ::
  "'j world \<Rightarrow> ('j \<Rightarrow> string) \<Rightarrow> client option \<Rightarrow> string \<Rightarrow> client option \<times> string outcome" where
  "tool_get_municipal_forecast_8days w str client municipality_code =
     (case client of
        None \<Rightarrow> (client, \<lparr>sent = [], result = Inr not_configured\<rparr>)
      | Some c \<Rightarrow> stringify str (get_municipal_forecast_8days w c municipality_code))"

definition tool_get_general_forecast ::
  "'j world \<Rightarrow> ('j \<Rightarrow> string) \<Rightarrow> client option \<Rightarrow> int \<Rightarrow> int \<Rightarrow> int \<Rightarrow> client option \<times> string outcome" where
  "tool_get_general_forecast w str client year month day =
     (case client of
        None \<Rightarrow> (client, \<lparr>sent = [], result = Inr not_configured\<rparr>)
      | Some c \<Rightarrow> stringify str (get_general_forecast w c year month day))"

definition tool_get_regional_forecast ::
  "'j world \<Rightarrow> ('j \<Rightarrow> string) \<Rightarrow> client option \<Rightarrow> int \<Rightarrow> int \<Rightarrow> int \<Rightarrow> client option \<times> string outcome" where
  "tool_get_regional_forecast w str client year month day =
     (case client of
        None \<Rightarrow> (client, \<lparr>sent = [], result = Inr not_configured\<rparr>)
      | Some c \<Rightarrow> stringify str (get_regional_forecast w c year month day))"

definition tool_get_uvi_forecast ::
  "'j world \<Rightarrow> ('j \<Rightarrow> string) \<Rightarrow> client option \<Rightarrow> string \<Rightarrow> client option \<times> string outcome" where
  "tool_get_uvi_forecast w str client municipality_code =
     (case client of
        None \<Rightarrow> (client, \<lparr>sent = [], result = Inr not_configured\<rparr>)
      | Some c \<Rightarrow> stringify str (get_uvi_forecast w c municipality_code))"

text \<open>The tool registry: the tool a named operation is dispatched to.\<close>

fun call_tool ::
  "'j world \<Rightarrow> ('j \<Rightarrow> string) \<Rightarrow> client option \<Rightarrow> operation \<Rightarrow> client option \<times> string outcome" where
  "call_tool w str client Get_municipalities = tool_get_municipalities w str client"
| "call_tool w str client Get_regions = tool_get_regions w str client"
| "call_tool w str client Get_weather_symbols = tool_get_weather_symbols w str client"
| "call_tool w str client (Get_all_stations state date) =
     tool_get_all_stations w str client state date"
| "call_tool w str client (Get_station station_code) = tool_get_station w str client station_code"
| "call_tool w str client Get_all_variables = tool_get_all_variables w str client"
| "call_tool w str client (Get_station_variables station_code state) =
     tool_get_station_variables w str client station_code state"
| "call_tool w str client (Get_latest_readings variable_code station_code) =
     tool_get_latest_readings w str client variable_code station_code"
| "call_tool w str client (Get_readings variable_code year month day station_code) =
     tool_get_readings w str client variable_code year month day station_code"
| "call_tool w str client (Get_municipal_forecast_72h municipality_code) =
     tool_get_municipal_forecast_72h w str client municipality_code"
| "call_tool w str client (Get_municipal_forecast_8days municipality_code) =
     tool_get_municipal_forecast_8days w str client municipality_code"
| "call_tool w str client (Get_general_forecast year month day) =
     tool_get_general_forecast w str client year month day"
| "call_tool w str client (Get_regional_forecast year month day) =
     tool_get_regional_forecast w str client year month day"
| "call_tool w str client (Get_uvi_forecast municipality_code) =
     tool_get_uvi_forecast w str client municipality_code"

section \<open>Observations and fixtures\<close>

text \<open>The URLs and the header sets of the requests a call put on the network, in order.\<close>

definition urls :: "client \<times> 'j outcome \<Rightarrow> string list" where
  "urls r = map req_url (sent (snd r))"

definition header_sets :: "client \<times> 'j outcome \<Rightarrow> (string \<times> string) list list" where
  "header_sets r = map req_headers (sent (snd r))"

text \<open>
  Fixtures for concrete runs. A decoded JSON value is a value of \<open>json\<close> (numbers are
  integers in the fixtures; the statements below hold for any type of decoded values). The
  fixture world answers every GET with one fixed status and body, and its decoder is a finite
  table from bodies to values: a body outside the table is not valid JSON.
\<close>

datatype json =
    JNull
  | JBool bool
  | JNumber int
  | JString string
  | JArray "json list"
  | JObject "(string \<times> json) list"

definition fixture_client :: client where
  "fixture_client =
     \<lparr>api_key = ''secret'',
      headers = [(''x-api-key'', ''secret''), (''Accept'', ''application/json'')]\<rparr>"

definition fixture_get :: "int \<Rightarrow> string \<Rightarrow> http_request \<Rightarrow> string + response" where
  "fixture_get status body req = Inr \<lparr>status_code = status, response_text = body\<rparr>"

definition fixture_loads :: "(string \<times> json) list \<Rightarrow> string \<Rightarrow> string + json" where
  "fixture_loads table body =
     (case map_of table body of None \<Rightarrow> Inl ''Expecting value'' | Some v \<Rightarrow> Inr v)"

definition fixture_world :: "int \<Rightarrow> string \<Rightarrow> (string \<times> json) list \<Rightarrow> json world" where
  "fixture_world status body table =
     \<lparr>http_get = fixture_get status body, json_loads = fixture_loads table\<rparr>"

section \<open>The documented URL templates\<close>

text \<open>
  The specification documents one URL template per operation, with the placeholders
  \<^verbatim>\<open>{YYYY}\<close>, \<^verbatim>\<open>{MM}\<close> and \<^verbatim>\<open>{DD}\<close> for a date and an optional query in brackets, as in
  \<^verbatim>\<open>/estacions/metadades[?estat=&data=]\<close>. The definitions of this section follow the
  specification's words, not the code: \<open>MM\<close> and \<open>DD\<close> are the two decimal digits of a
  number below 100, \<open>YYYY\<close> the four decimal digits of a number below 10000, and the optional
  query lists \<^verbatim>\<open>name=value\<close> for the arguments that were supplied, in the template's order.
\<close>

definition two_digits :: "int \<Rightarrow> string" where
  "two_digits n = [digit_char (nat n div 10), digit_char (nat n mod 10)]"

definition four_digits :: "int \<Rightarrow> string" where
  "four_digits n =
     [digit_char (nat n div 1000), digit_char (nat n div 100 mod 10),
      digit_char (nat n div 10 mod 10), digit_char (nat n mod 10)]"

fun supplied :: "(string \<times> string option) list \<Rightarrow> string list" where
  "supplied [] = []"
| "supplied ((name, None) # ps) = supplied ps"
| "supplied ((name, Some v) # ps) = (name @ ''='' @ v) # supplied ps"

definition optional_query :: "(string \<times> string option) list \<Rightarrow> string" where
  "optional_query ps = (if supplied ps = [] then [] else ''?'' @ join ''&'' (supplied ps))"

fun documented_url :: "operation \<Rightarrow> string" where
  "documented_url Get_municipalities = REFERENCIA_BASE_URL @ ''/municipis''"
| "documented_url Get_regions = REFERENCIA_BASE_URL @ ''/comarques''"
| "documented_url Get_weather_symbols = REFERENCIA_BASE_URL @ ''/simbols''"
| "documented_url (Get_all_stations state date) =
     XEMA_BASE_URL @ ''/estacions/metadades'' @ optional_query [(''estat'', state), (''data'', date)]"
| "documented_url (Get_station code) = XEMA_BASE_URL @ ''/estacions/'' @ code @ ''/metadades''"
| "documented_url (Get_station_variables code state) =
     XEMA_BASE_URL @ ''/estacions/'' @ code @ ''/variables/metadades''
     @ optional_query [(''estat'', state)]"
| "documented_url Get_all_variables = XEMA_BASE_URL @ ''/variables/metadades''"
| "documented_url (Get_latest_readings variable station) =
     XEMA_BASE_URL @ ''/variables/mesurades/'' @ str_int variable @ ''/ultimes''
     @ optional_query [(''codiEstacio'', station)]"
| "documented_url (Get_readings variable year month day station) =
     XEMA_BASE_URL @ ''/variables/mesurades/'' @ str_int variable @ ''/'' @ four_digits year
     @ ''/'' @ two_digits month @ ''/'' @ two_digits day
     @ optional_query [(''codiEstacio'', station)]"
| "documented_url (Get_municipal_forecast_72h code) =
     PRONOSTIC_BASE_URL @ ''/municipalHoraria/'' @ code"
| "documented_url (Get_municipal_forecast_8days code) = PRONOSTIC_BASE_URL @ ''/municipal/'' @ code"
| "documented_url (Get_general_forecast year month day) =
     PRONOSTIC_BASE_URL @ ''/catalunya/'' @ four_digits year @ ''/'' @ two_digits month
     @ ''/'' @ two_digits day"
| "documented_url (Get_regional_forecast year month day) =
     PRONOSTIC_BASE_URL @ ''/comarcal/'' @ four_digits year @ ''/'' @ two_digits month
     @ ''/'' @ two_digits day"
| "documented_url (Get_uvi_forecast code) = PRONOSTIC_BASE_URL @ ''/uvi/'' @ code"

text \<open>
  Valid parameters, as far as the templates need them: a date has a four-digit year, a month
  in 1..12 and a day in 1..31, and an optional string that is supplied is not empty (station
  codes and states are never empty strings).
\<close>

definition valid_date :: "int \<Rightarrow> int \<Rightarrow> int \<Rightarrow> bool" where
  "valid_date year month day =
     (1000 \<le> year \<and> year \<le> 9999 \<and> 1 \<le> month \<and> month \<le> 12 \<and> 1 \<le> day \<and> day \<le> 31)"

fun nonempty_if_supplied :: "string option \<Rightarrow> bool" where
  "nonempty_if_supplied None = True"
| "nonempty_if_supplied (Some v) = (v \<noteq> [])"

fun valid_params :: "operation \<Rightarrow> bool" where
  "valid_params (Get_all_stations state date) =
     (nonempty_if_supplied state \<and> nonempty_if_supplied date)"
| "valid_params (Get_station_variables code state) = nonempty_if_supplied state"
| "valid_params (Get_latest_readings variable station) = nonempty_if_supplied station"
| "valid_params (Get_readings variable year month day station) =
     (valid_date year month day \<and> nonempty_if_supplied station)"
| "valid_params (Get_general_forecast year month day) = valid_date year month day"
| "valid_params (Get_regional_forecast year month day) = valid_date year month day"
| "valid_params _ = True"

section \<open>Query parameters of a URL\<close>

text \<open>
  What it means for a query parameter to be present in a URL, as URL parsers read it: ASCII
  tabs and newlines are dropped from the URL first; the fragment is what follows the first
  \<^verbatim>\<open>#\<close> and is no part of the query; the query is what follows the first \<^verbatim>\<open>?\<close> of the rest; its
  parameters are its non-empty pieces between \<^verbatim>\<open>&\<close>, and a piece is a name and a value around
  its first \<^verbatim>\<open>=\<close>.
\<close>

definition tab_or_newline :: "char \<Rightarrow> bool" where
  "tab_or_newline ch = (ch = CHR 0x09 \<or> ch = CHR 0x0A \<or> ch = CHR 0x0D)"

definition without_tabs_and_newlines :: "string \<Rightarrow> string" where
  "without_tabs_and_newlines url = filter (\<lambda>ch. \<not> tab_or_newline ch) url"

definition without_fragment :: "string \<Rightarrow> string" where
  "without_fragment url = takeWhile (\<lambda>ch. ch \<noteq> CHR ''#'') url"

definition query_string :: "string \<Rightarrow> string" where
  "query_string url =
     drop 1 (dropWhile (\<lambda>ch. ch \<noteq> CHR ''?'') (without_fragment (without_tabs_and_newlines url)))"

fun pieces :: "char \<Rightarrow> string \<Rightarrow> string list" where
  "pieces sep [] = [[]]"
| "pieces sep (ch # s) =
     (if ch = sep then [] # pieces sep s
      else (case pieces sep s of [] \<Rightarrow> [[ch]] | p # ps \<Rightarrow> (ch # p) # ps))"

definition name_value :: "string \<Rightarrow> string \<times> string" where
  "name_value p =
     (takeWhile (\<lambda>ch. ch \<noteq> CHR ''='') p, drop 1 (dropWhile (\<lambda>ch. ch \<noteq> CHR ''='') p))"

definition query_params :: "string \<Rightarrow> (string \<times> string) list" where
  "query_params url =
     map name_value (filter (\<lambda>p. p \<noteq> []) (pieces CHR ''&'' (query_string url)))"

definition has_param :: "string \<Rightarrow> string \<Rightarrow> bool" where
  "has_param name url = (name \<in> set (map fst (query_params url)))"



section \<open>Every operation is one GET through \<open>request\<close>\<close>

lemma request_self: "fst (request w c url) = c"
  by (simp add: request_def Let_def split: sum.split)

lemma request_sent: "sent (snd (request w c url)) = [\<lparr>req_url = url, req_headers = headers c\<rparr>]"
  by (simp add: request_def Let_def split: sum.split)

lemma request_urls: "urls (request w c url) = [url]"
  by (simp add: urls_def request_sent)

lemma request_header_sets: "header_sets (request w c url) = [headers c]"
  by (simp add: header_sets_def request_sent)

lemmas method_defs =
  get_municipalities_def get_regions_def get_weather_symbols_def get_all_stations_def
  get_station_def get_station_variables_def get_all_variables_def get_latest_readings_def
  get_readings_def get_municipal_forecast_72h_def get_municipal_forecast_8days_def
  get_general_forecast_def get_regional_forecast_def get_uvi_forecast_def

lemma invoke_via_request: "\<exists>url. \<forall>(w::'j world) c. invoke w c op = request w c url"
  by (cases op) (auto simp: method_defs Let_def)

lemma invoke_is_request: "\<exists>url. invoke w c op = request w c url"
  using invoke_via_request [of op] by blast

lemma invoke_self: "fst (invoke w c op) = c"
  using invoke_is_request [of w c op] by (auto simp: request_self)

lemma invoke_header_sets: "header_sets (invoke w c op) = [headers c]"
  using invoke_is_request [of w c op] by (auto simp: request_header_sets)

lemma invoke_urls_world: "urls (invoke w c op) = urls (invoke w' c' op)"
  by (cases op) (simp_all add: method_defs Let_def request_urls)

lemmas tool_defs =
  tool_get_municipalities_def tool_get_regions_def tool_get_weather_symbols_def
  tool_get_all_stations_def tool_get_station_def tool_get_station_variables_def
  tool_get_all_variables_def tool_get_latest_readings_def tool_get_readings_def
  tool_get_municipal_forecast_72h_def tool_get_municipal_forecast_8days_def
  tool_get_general_forecast_def tool_get_regional_forecast_def tool_get_uvi_forecast_def

lemma call_tool_None:
  "call_tool w str None op = (None, \<lparr>sent = [], result = Inr not_configured\<rparr>)"
  by (cases op) (simp_all add: tool_defs)

lemma call_tool_Some: "call_tool w str (Some c) op = stringify str (invoke w c op)"
  by (cases op) (simp_all add: tool_defs)

lemma server_client_falsy: "\<not> truthy key \<Longrightarrow> server_client key = \<lparr>sent = [], result = Inr None\<rparr>"
  by (simp add: server_client_def)

text \<open>Start-up never raises: the constructor is only called on a truthy credential.\<close>

lemma server_client_truthy:
  "truthy key \<Longrightarrow> server_client key = \<lparr>sent = [], result = Inr (Some \<lparr>api_key = the key,
      headers = [(''x-api-key'', the key), (''Accept'', ''application/json'')]\<rparr>)\<rparr>"
  by (simp add: server_client_def MeteocatClient_def Let_def)


lemma request_result:
  "http_get w \<lparr>req_url = url, req_headers = headers c\<rparr> = Inr resp \<Longrightarrow>
   result (snd (request w c url)) =
     (if status_code resp \<noteq> 200
      then Inl (Exception (''Meteocat API error ('' @ str_int (status_code resp) @ ''): ''
                           @ response_text resp))
      else (case json_loads w (response_text resp) of
              Inl e \<Rightarrow> Inl (JSONDecodeError e)
            | Inr v \<Rightarrow> Inr v))"
  by (simp add: request_def Let_def)

lemma invoke_result:
  assumes "sent (snd (invoke w c op)) = [req]" and "http_get w req = Inr resp"
  shows "result (snd (invoke w c op)) =
     (if status_code resp \<noteq> 200
      then Inl (Exception (''Meteocat API error ('' @ str_int (status_code resp) @ ''): ''
                           @ response_text resp))
      else (case json_loads w (response_text resp) of
              Inl e \<Rightarrow> Inl (JSONDecodeError e)
            | Inr v \<Rightarrow> Inr v))"
proof -
  obtain url where u: "invoke w c op = request w c url"
    using invoke_is_request by blast
  with assms(1) have "req = \<lparr>req_url = url, req_headers = headers c\<rparr>"
    by (simp add: request_sent)
  with assms(2) u show ?thesis
    by (simp add: request_result)
qed

text \<open>Every operation puts exactly one request on the network, whatever the answer.\<close>

lemma invoke_sent_single: "\<exists>req. sent (snd (invoke w c op)) = [req]"
  using invoke_is_request [of w c op] by (auto simp: request_sent)

lemma invoke_ignores_decoder:
  assumes "sent (snd (invoke w c op)) = [req]" and "http_get w req = Inr resp"
    and "status_code resp \<noteq> 200"
  shows "invoke (w\<lparr>json_loads := loads'\<rparr>) c op = invoke w c op"
proof -
  obtain url where all: "\<forall>(w::'a world) c. invoke w c op = request w c url"
    using invoke_via_request by blast
  have u: "invoke w c op = request w c url"
    and u': "invoke (w\<lparr>json_loads := loads'\<rparr>) c op = request (w\<lparr>json_loads := loads'\<rparr>) c url"
    using all by blast+
  from assms(1) u have "req = \<lparr>req_url = url, req_headers = headers c\<rparr>"
    by (simp add: request_sent)
  with assms(2,3) show ?thesis
    unfolding u u' by (simp add: request_def Let_def)
qed


lemmas fixture_defs = fixture_world_def fixture_get_def fixture_loads_def fixture_client_def

section \<open>Status handling\<close>

text \<open>
  Claim C2, as amended. For every operation and every upstream response: if the status is
  exactly 200 the client decodes the body as JSON and returns the decoded value (a decoder
  failure is raised as a decode error); for every other status, the other 2xx statuses
  included, the client raises an exception whose message is
  \<^verbatim>\<open>Meteocat API error (<status>): <body>\<close>, which carries the decimal status code and the raw body
  text, and the decoder plays no part in the call: replacing it changes nothing.
\<close>

theorem bad_status_is_transport_error:
  assumes "sent (snd (invoke w c op)) = [req]" and "http_get w req = Inr resp"
  shows "(status_code resp = 200 \<longrightarrow>
            result (snd (invoke w c op)) =
              (case json_loads w (response_text resp) of
                 Inl e \<Rightarrow> Inl (JSONDecodeError e)
               | Inr v \<Rightarrow> Inr v))
       \<and> (status_code resp \<noteq> 200 \<longrightarrow>
            (\<exists>msg. result (snd (invoke w c op)) = Inl (Exception msg)
               \<and> msg = ''Meteocat API error ('' @ str_int (status_code resp) @ ''): ''
                        @ response_text resp
               \<and> sublist (str_int (status_code resp)) msg
               \<and> sublist (response_text resp) msg)
            \<and> invoke (w\<lparr>json_loads := loads'\<rparr>) c op = invoke w c op)"
proof (intro conjI impI)
  assume "status_code resp = 200"
  then show "result (snd (invoke w c op)) =
      (case json_loads w (response_text resp) of
         Inl e \<Rightarrow> Inl (JSONDecodeError e)
       | Inr v \<Rightarrow> Inr v)"
    using invoke_result [OF assms] by simp
next
  assume bad: "status_code resp \<noteq> 200"
  let ?msg = "''Meteocat API error ('' @ str_int (status_code resp) @ ''): '' @ response_text resp"
  have "result (snd (invoke w c op)) = Inl (Exception ?msg)"
    using invoke_result [OF assms] bad by simp
  moreover have "sublist (str_int (status_code resp)) ?msg"
    by (rule sublist_appendI)
  moreover have "sublist (response_text resp) ?msg"
    using sublist_appendI [of "response_text resp"
        "''Meteocat API error ('' @ str_int (status_code resp) @ ''): ''" "[]"]
    by simp
  ultimately show "\<exists>msg. result (snd (invoke w c op)) = Inl (Exception msg)
      \<and> msg = ''Meteocat API error ('' @ str_int (status_code resp) @ ''): '' @ response_text resp
      \<and> sublist (str_int (status_code resp)) msg
      \<and> sublist (response_text resp) msg"
    by blast
next
  assume "status_code resp \<noteq> 200"
  then show "invoke (w\<lparr>json_loads := loads'\<rparr>) c op = invoke w c op"
    by (rule invoke_ignores_decoder [OF assms])
qed

text \<open>The 404 scenario of the specification, and a 200 response, on the fixture world.\<close>

theorem bad_status_is_transport_error_witness:
  "result (snd (invoke (fixture_world 404 ''not found'' []) fixture_client Get_municipalities))
     = Inl (Exception ''Meteocat API error (404): not found'')
   \<and> sublist ''404'' ''Meteocat API error (404): not found''
   \<and> sublist ''not found'' ''Meteocat API error (404): not found''
   \<and> result (snd (invoke (fixture_world 200 ''[]'' [(''[]'', JArray [])]) fixture_client
                      Get_municipalities))
     = Inr (JArray [])"
proof -
  let ?req = "\<lparr>req_url = ''https://api.meteo.cat/referencia/v1/municipis'',
               req_headers = headers fixture_client\<rparr>"
  have s: "sent (snd (invoke (fixture_world st body tab) fixture_client Get_municipalities)) = [?req]"
    for st body tab
    by (simp add: get_municipalities_def request_sent REFERENCIA_BASE_URL_def)
  have g: "http_get (fixture_world st body tab) ?req = Inr \<lparr>status_code = st, response_text = body\<rparr>"
    for st body tab
    by (simp add: fixture_defs)
  show ?thesis
    using bad_status_is_transport_error
        [OF s [of 404 "''not found''" "[]"] g [of 404 "''not found''" "[]"]]
      bad_status_is_transport_error
        [OF s [of 200 "''[]''" "[(''[]'', JArray [])]"] g [of 200 "''[]''" "[(''[]'', JArray [])]"]]
    by (simp add: str_int_def str_nat.simps digit_char_def fixture_defs)
qed

text \<open>
  The claim as the specification words it, for every 2xx status, fails at status 201: the
  body is valid JSON for the decoder, and the client raises instead of returning it.
\<close>

theorem other_2xx_status_counterexample:
  "status_code \<lparr>status_code = 201, response_text = ''[]''\<rparr> div 100 = 2
   \<and> json_loads (fixture_world 201 ''[]'' [(''[]'', JArray [])]) ''[]'' = Inr (JArray [])
   \<and> result (snd (invoke (fixture_world 201 ''[]'' [(''[]'', JArray [])]) fixture_client
                      Get_municipalities))
     = Inl (Exception ''Meteocat API error (201): []'')"
  by (simp add: get_municipalities_def request_def Let_def fixture_defs str_int_def
      str_nat.simps digit_char_def)

text \<open>
  Claim C7, as amended. For every operation and every upstream response with status 200 whose
  body the decoder accepts, the client returns the decoded value itself, whatever its shape.
  In particular, when the body is the serialisation of a value and the decoder maps that
  serialisation back to the value, the client returns that value: an array comes back with
  its elements as they were, none reordered, renamed or dropped.
\<close>

theorem success_returns_decoded_value:
  assumes "sent (snd (invoke w c op)) = [req]" and "http_get w req = Inr resp"
    and "status_code resp = 200"
  shows "(json_loads w (response_text resp) = Inr v \<longrightarrow> result (snd (invoke w c op)) = Inr v)
       \<and> (response_text resp = dumps v \<and> json_loads w (dumps v) = Inr v \<longrightarrow>
            result (snd (invoke w c op)) = Inr v)"
  using invoke_result [OF assms(1,2)] assms(3) by auto

text \<open>
  An array with a repeated element and no order, on the fixture world.
\<close>

theorem success_returns_decoded_value_witness:
  "result (snd (invoke (fixture_world 200 ''[3, 1, 2, 1]''
                          [(''[3, 1, 2, 1]'', JArray [JNumber 3, JNumber 1, JNumber 2, JNumber 1])])
                  fixture_client (Get_station ''UG'')))
     = Inr (JArray [JNumber 3, JNumber 1, JNumber 2, JNumber 1])"
proof -
  let ?w = "fixture_world 200 ''[3, 1, 2, 1]''
              [(''[3, 1, 2, 1]'', JArray [JNumber 3, JNumber 1, JNumber 2, JNumber 1])]"
  let ?req = "\<lparr>req_url = ''https://api.meteo.cat/xema/v1/estacions/UG/metadades'',
               req_headers = headers fixture_client\<rparr>"
  have s: "sent (snd (invoke ?w fixture_client (Get_station ''UG''))) = [?req]"
    by (simp add: get_station_def request_sent XEMA_BASE_URL_def)
  have g: "http_get ?w ?req = Inr \<lparr>status_code = 200, response_text = ''[3, 1, 2, 1]''\<rparr>"
    by (simp add: fixture_defs)
  have ok: "status_code \<lparr>status_code = 200, response_text = ''[3, 1, 2, 1]''\<rparr> = 200"
    by simp
  show ?thesis
    using success_returns_decoded_value [OF s g ok,
        of "JArray [JNumber 3, JNumber 1, JNumber 2, JNumber 1]"]
    by (simp add: fixture_defs)
qed

text \<open>
  As worded for every success status, the claim fails at status 202: the body is valid JSON
  for the decoder, and the client raises instead of returning the array.
\<close>

theorem accepted_status_counterexample:
  "status_code \<lparr>status_code = 202, response_text = ''[3, 1, 2, 1]''\<rparr> div 100 = 2
   \<and> json_loads (fixture_world 202 ''[3, 1, 2, 1]''
                    [(''[3, 1, 2, 1]'', JArray [JNumber 3, JNumber 1, JNumber 2, JNumber 1])])
        ''[3, 1, 2, 1]''
     = Inr (JArray [JNumber 3, JNumber 1, JNumber 2, JNumber 1])
   \<and> result (snd (invoke (fixture_world 202 ''[3, 1, 2, 1]''
                          [(''[3, 1, 2, 1]'', JArray [JNumber 3, JNumber 1, JNumber 2, JNumber 1])])
                  fixture_client (Get_station ''UG'')))
     = Inl (Exception ''Meteocat API error (202): [3, 1, 2, 1]'')"
  by (simp add: get_station_def request_def Let_def fixture_defs str_int_def
      str_nat.simps digit_char_def)

text \<open>
  Claim C8, as amended. For every operation and every upstream response with status 200 whose
  body the decoder rejects, the client raises the decode error, carrying the decoder's own
  message, and returns no value at all.
\<close>

theorem malformed_body_is_decode_error:
  assumes "sent (snd (invoke w c op)) = [req]" and "http_get w req = Inr resp"
    and "status_code resp = 200" and "json_loads w (response_text resp) = Inl e"
  shows "result (snd (invoke w c op)) = Inl (JSONDecodeError e)
       \<and> (\<forall>v. result (snd (invoke w c op)) \<noteq> Inr v)"
  using invoke_result [OF assms(1,2)] assms(3,4) by simp

theorem malformed_body_is_decode_error_witness:
  "result (snd (invoke (fixture_world 200 ''<html>'' [(''[]'', JArray [])]) fixture_client
                  Get_all_variables))
     = Inl (JSONDecodeError ''Expecting value'')"
proof -
  let ?w = "fixture_world 200 ''<html>'' [(''[]'', JArray [])]"
  let ?req = "\<lparr>req_url = ''https://api.meteo.cat/xema/v1/variables/metadades'',
               req_headers = headers fixture_client\<rparr>"
  have s: "sent (snd (invoke ?w fixture_client Get_all_variables)) = [?req]"
    by (simp add: get_all_variables_def request_sent XEMA_BASE_URL_def)
  have g: "http_get ?w ?req = Inr \<lparr>status_code = 200, response_text = ''<html>''\<rparr>"
    by (simp add: fixture_defs)
  have ok: "status_code \<lparr>status_code = 200, response_text = ''<html>''\<rparr> = 200"
    by simp
  have bad: "json_loads ?w (response_text \<lparr>status_code = 200, response_text = ''<html>''\<rparr>)
      = Inl ''Expecting value''"
    by (simp add: fixture_defs)
  show ?thesis
    using malformed_body_is_decode_error [OF s g ok bad] by simp
qed

text \<open>
  As worded for every success status, the claim fails at status 201: the body is not valid
  JSON, and the client raises the status exception, not a decode error.
\<close>

theorem created_status_malformed_body_counterexample:
  "status_code \<lparr>status_code = 201, response_text = ''<html>''\<rparr> div 100 = 2
   \<and> json_loads (fixture_world 201 ''<html>'' [(''[]'', JArray [])]) ''<html>''
     = Inl ''Expecting value''
   \<and> result (snd (invoke (fixture_world 201 ''<html>'' [(''[]'', JArray [])]) fixture_client
                      Get_all_variables))
     = Inl (Exception ''Meteocat API error (201): <html>'')"
  by (simp add: get_all_variables_def request_def Let_def fixture_defs str_int_def
      str_nat.simps digit_char_def)

section \<open>Construction and client state\<close>

text \<open>
  Claim C5. Constructing the client with an absent or an empty credential raises the
  configuration error \<^verbatim>\<open>ValueError("METEOCAT_API_KEY is required")\<close>; construction never puts
  a request on the network. With a non-empty credential construction succeeds, and the client
  holds the credential and the header set \<^verbatim>\<open>x-api-key: <key>\<close>, \<^verbatim>\<open>Accept: application/json\<close>.
  Every operation of a constructed client sends its request with exactly this header set,
  and the client still holds it afterwards.
\<close>

theorem construction_and_headers:
  "MeteocatClient None
     = \<lparr>sent = [], result = Inl (ValueError ''METEOCAT_API_KEY is required'')\<rparr>
   \<and> MeteocatClient (Some '''')
     = \<lparr>sent = [], result = Inl (ValueError ''METEOCAT_API_KEY is required'')\<rparr>
   \<and> sent (MeteocatClient key) = []
   \<and> (k \<noteq> '''' \<longrightarrow>
        MeteocatClient (Some k)
          = \<lparr>sent = [],
             result = Inr \<lparr>api_key = k,
                           headers = [(''x-api-key'', k), (''Accept'', ''application/json'')]\<rparr>\<rparr>)
   \<and> (result (MeteocatClient key) = Inr c \<longrightarrow>
        header_sets (invoke w c op)
          = [[(''x-api-key'', api_key c), (''Accept'', ''application/json'')]]
        \<and> headers (fst (invoke w c op))
          = [(''x-api-key'', api_key c), (''Accept'', ''application/json'')])"
  by (auto simp: MeteocatClient_def invoke_header_sets invoke_self)

theorem construction_and_headers_witness:
  "''secret'' \<noteq> ''''
   \<and> MeteocatClient (Some ''secret'') = \<lparr>sent = [], result = Inr fixture_client\<rparr>
   \<and> header_sets (invoke (fixture_world 200 ''[]'' [(''[]'', JArray [])]) fixture_client
                      (Get_uvi_forecast ''080193''))
     = [[(''x-api-key'', ''secret''), (''Accept'', ''application/json'')]]"
proof -
  have r: "result (MeteocatClient (Some ''secret'')) = Inr fixture_client"
    by (simp add: MeteocatClient_def fixture_client_def)
  show ?thesis
    using construction_and_headers [of "Some ''secret''" "''secret''" fixture_client
        "fixture_world 200 ''[]'' [(''[]'', JArray [])]" "Get_uvi_forecast ''080193''"] r
    by (simp add: fixture_client_def)
qed

text \<open>
  Claim C9. Every operation returns the client as it received it, whatever the network
  answers: the credential and the header set are what they were, and the record has no other
  field. The same holds through the dispatcher's tools. The URL an operation requests is the
  same for every client and every world: it is a function of the operation's parameters
  alone.
\<close>

theorem operations_leave_client_unchanged:
  "fst (invoke w c op) = c
   \<and> api_key (fst (invoke w c op)) = api_key c
   \<and> headers (fst (invoke w c op)) = headers c
   \<and> fst (call_tool w str (Some c) op) = Some c
   \<and> urls (invoke w c op) = urls (invoke w' c' op)"
  using invoke_urls_world [of w c op w' c']
  by (simp add: invoke_self call_tool_Some stringify_def)

section \<open>The dispatcher without a client\<close>

text \<open>
  Claim C6. When the credential is missing or empty at start-up the module's client is
  \<^verbatim>\<open>None\<close>, and then every one of the fourteen tools, whatever its arguments and whatever the
  world, sends nothing and returns the same fixed message; no operation of the client runs.
\<close>

theorem unconfigured_tools_short_circuit:
  "server_client None = \<lparr>sent = [], result = Inr None\<rparr>
   \<and> server_client (Some '''') = \<lparr>sent = [], result = Inr None\<rparr>
   \<and> call_tool w str None op
     = (None, \<lparr>sent = [], result = Inr ''Error: Server not configured (missing API key)''\<rparr>)"
  by (simp add: server_client_falsy call_tool_None not_configured_def)

section \<open>Optional parameters\<close>

text \<open>
  Claim C10. For each of the four operations with an optional string parameter, passing
  the empty string is the same call as omitting the parameter, and the URL requested is in
  both cases the URL without that parameter: \<^verbatim>\<open>get_all_stations(state="", date="")\<close> requests
  the bare metadata URL, as \<^verbatim>\<open>get_all_stations()\<close> does, and \<^verbatim>\<open>get_station_variables\<close>,
  \<^verbatim>\<open>get_latest_readings\<close> and \<^verbatim>\<open>get_readings\<close> request their path with no query at all.
\<close>

theorem empty_string_is_omitted:
  "get_all_stations w c (Some '''') (Some '''') = get_all_stations w c None None
   \<and> get_all_stations w c (Some '''') date = get_all_stations w c None date
   \<and> get_all_stations w c state (Some '''') = get_all_stations w c state None
   \<and> get_station_variables w c station (Some '''') = get_station_variables w c station None
   \<and> get_latest_readings w c variable (Some '''') = get_latest_readings w c variable None
   \<and> get_readings w c variable year month day (Some '''')
     = get_readings w c variable year month day None
   \<and> urls (get_all_stations w c (Some '''') (Some ''''))
     = [''https://api.meteo.cat/xema/v1/estacions/metadades'']
   \<and> urls (get_all_stations w c None None)
     = [''https://api.meteo.cat/xema/v1/estacions/metadades'']
   \<and> urls (get_all_stations w c (Some '''') date)
     = [XEMA_BASE_URL @ ''/estacions/metadades''
        @ (if truthy date then ''?data='' @ the date else '''')]
   \<and> urls (get_all_stations w c None date)
     = [XEMA_BASE_URL @ ''/estacions/metadades''
        @ (if truthy date then ''?data='' @ the date else '''')]
   \<and> urls (get_all_stations w c state (Some ''''))
     = [XEMA_BASE_URL @ ''/estacions/metadades''
        @ (if truthy state then ''?estat='' @ the state else '''')]
   \<and> urls (get_all_stations w c state None)
     = [XEMA_BASE_URL @ ''/estacions/metadades''
        @ (if truthy state then ''?estat='' @ the state else '''')]
   \<and> urls (get_station_variables w c station (Some ''''))
     = [XEMA_BASE_URL @ ''/estacions/'' @ station @ ''/variables/metadades'']
   \<and> urls (get_station_variables w c station None)
     = [XEMA_BASE_URL @ ''/estacions/'' @ station @ ''/variables/metadades'']
   \<and> urls (get_latest_readings w c variable (Some ''''))
     = [XEMA_BASE_URL @ ''/variables/mesurades/'' @ str_int variable @ ''/ultimes'']
   \<and> urls (get_latest_readings w c variable None)
     = [XEMA_BASE_URL @ ''/variables/mesurades/'' @ str_int variable @ ''/ultimes'']
   \<and> urls (get_readings w c variable year month day (Some ''''))
     = [XEMA_BASE_URL @ ''/variables/mesurades/'' @ str_int variable @ ''/'' @ str_int year
        @ ''/'' @ format_02d month @ ''/'' @ format_02d day]
   \<and> urls (get_readings w c variable year month day None)
     = [XEMA_BASE_URL @ ''/variables/mesurades/'' @ str_int variable @ ''/'' @ str_int year
        @ ''/'' @ format_02d month @ ''/'' @ format_02d day]"
  by (simp add: get_all_stations_def get_station_variables_def get_latest_readings_def
      get_readings_def Let_def request_urls XEMA_BASE_URL_def)

text \<open>The same URLs on concrete arguments, written out.\<close>

theorem empty_string_is_omitted_witness:
  "urls (get_station_variables (fixture_world 200 ''[]'' [(''[]'', JArray [])]) fixture_client
           ''UG'' (Some ''''))
     = [''https://api.meteo.cat/xema/v1/estacions/UG/variables/metadades'']
   \<and> urls (get_station_variables (fixture_world 200 ''[]'' [(''[]'', JArray [])]) fixture_client
             ''UG'' None)
     = [''https://api.meteo.cat/xema/v1/estacions/UG/variables/metadades'']
   \<and> urls (get_latest_readings (fixture_world 200 ''[]'' [(''[]'', JArray [])]) fixture_client
             32 (Some ''''))
     = [''https://api.meteo.cat/xema/v1/variables/mesurades/32/ultimes'']
   \<and> urls (get_latest_readings (fixture_world 200 ''[]'' [(''[]'', JArray [])]) fixture_client
             32 None)
     = [''https://api.meteo.cat/xema/v1/variables/mesurades/32/ultimes'']
   \<and> urls (get_readings (fixture_world 200 ''[]'' [(''[]'', JArray [])]) fixture_client
             32 2024 3 7 (Some ''''))
     = [''https://api.meteo.cat/xema/v1/variables/mesurades/32/2024/03/07'']
   \<and> urls (get_readings (fixture_world 200 ''[]'' [(''[]'', JArray [])]) fixture_client
             32 2024 3 7 None)
     = [''https://api.meteo.cat/xema/v1/variables/mesurades/32/2024/03/07'']
   \<and> urls (get_all_stations (fixture_world 200 ''[]'' [(''[]'', JArray [])]) fixture_client
             (Some '''') (Some ''2024-03-07Z''))
     = [''https://api.meteo.cat/xema/v1/estacions/metadades?data=2024-03-07Z'']
   \<and> urls (get_all_stations (fixture_world 200 ''[]'' [(''[]'', JArray [])]) fixture_client
             None (Some ''2024-03-07Z''))
     = [''https://api.meteo.cat/xema/v1/estacions/metadades?data=2024-03-07Z'']"
  using empty_string_is_omitted
    [of "fixture_world 200 ''[]'' [(''[]'', JArray [])]" fixture_client "Some ''2024-03-07Z''"
      None "''UG''" 32 2024 3 7]
  by (simp add: XEMA_BASE_URL_def str_int_def format_02d_def str_nat.simps digit_char_def)

section \<open>Formatting integers\<close>

lemma str_nat_digit: "n < 10 \<Longrightarrow> str_nat n = [digit_char n]"
  by (simp add: str_nat.simps)

lemma str_nat_step: "10 \<le> n \<Longrightarrow> str_nat n = str_nat (n div 10) @ [digit_char (n mod 10)]"
  by (subst str_nat.simps) simp

lemma str_nat_two: "10 \<le> n \<Longrightarrow> n < 100 \<Longrightarrow> str_nat n = [digit_char (n div 10), digit_char (n mod 10)]"
  by (simp add: str_nat_step str_nat_digit)

lemma str_nat_four:
  assumes "1000 \<le> n" and "n < 10000"
  shows "str_nat n = [digit_char (n div 1000), digit_char (n div 100 mod 10),
                      digit_char (n div 10 mod 10), digit_char (n mod 10)]"
proof -
  have a: "str_nat n = str_nat (n div 10) @ [digit_char (n mod 10)]"
    using assms by (simp add: str_nat_step)
  have b: "str_nat (n div 10) = str_nat (n div 100) @ [digit_char (n div 10 mod 10)]"
    using assms by (simp add: str_nat_step div_mult2_eq [symmetric])
  have c: "str_nat (n div 100) = [digit_char (n div 1000), digit_char (n div 100 mod 10)]"
    using assms str_nat_two [of "n div 100"] by (simp add: div_mult2_eq [symmetric])
  show ?thesis by (simp add: a b c)
qed

lemma str_nat_nonempty: "str_nat n \<noteq> []"
  by (subst str_nat.simps) simp

lemma length_str_nat_two:
  assumes "10 \<le> n"
  shows "2 \<le> length (str_nat n)"
proof -
  have "str_nat n = str_nat (n div 10) @ [digit_char (n mod 10)]"
    using assms by (rule str_nat_step)
  then have "length (str_nat n) = Suc (length (str_nat (n div 10)))"
    by simp
  moreover have "0 < length (str_nat (n div 10))"
    using str_nat_nonempty [of "n div 10"] by (simp del: str_nat.simps)
  ultimately show ?thesis
    by linarith
qed

lemma format_02d_small: "0 \<le> m \<Longrightarrow> m \<le> 9 \<Longrightarrow> format_02d m = [CHR ''0'', digit_char (nat m)]"
  by (simp add: format_02d_def str_nat_digit)

lemma format_02d_large: "10 \<le> m \<Longrightarrow> format_02d m = str_int m"
  using length_str_nat_two [of "nat m"] by (simp add: format_02d_def str_int_def)

lemma format_02d_negative:
  assumes "m < 0"
  shows "format_02d m = str_int m"
proof -
  have "0 < length (str_nat (nat (- m)))"
    using str_nat_nonempty [of "nat (- m)"] by simp
  then have "2 - (1 + length (str_nat (nat (- m)))) = 0"
    by linarith
  with assms show ?thesis
    by (simp add: format_02d_def str_int_def Let_def)
qed

lemma format_02d_two_digits: "0 \<le> m \<Longrightarrow> m \<le> 99 \<Longrightarrow> format_02d m = two_digits m"
proof (cases "m \<le> 9")
  case True
  assume "0 \<le> m"
  with True show ?thesis
    by (simp add: format_02d_small two_digits_def digit_char_def)
next
  case False
  assume "m \<le> 99"
  with False show ?thesis
    using str_nat_two [of "nat m"] by (simp add: format_02d_large str_int_def two_digits_def)
qed

text \<open>
  Claim C4. In the three date-based operations the month and the day are rendered by
  \<^verbatim>\<open>f"{n:02d}"\<close>: a value in 1..9 becomes \<^verbatim>\<open>0\<close> and its digit, every value in 0..99 its two
  decimal digits (3 gives \<^verbatim>\<open>03\<close>, 12 and 31 give \<^verbatim>\<open>12\<close> and \<^verbatim>\<open>31\<close>), and a value of 10 or more
  or below zero its plain decimal rendering. Nothing else looks at the year, the month or
  the day: for all integers, each of the three operations is one request to the URL built
  from these renderings, so an out-of-range value goes into the path as it is.
\<close>

theorem month_and_day_are_zero_padded:
  "(1 \<le> m \<and> m \<le> 9 \<longrightarrow> format_02d m = [CHR ''0'', digit_char (nat m)])
   \<and> (0 \<le> m \<and> m \<le> 99 \<longrightarrow> format_02d m = two_digits m \<and> length (format_02d m) = 2)
   \<and> format_02d 3 = ''03'' \<and> format_02d 12 = ''12'' \<and> format_02d 31 = ''31''
   \<and> (10 \<le> m \<longrightarrow> format_02d m = str_int m)
   \<and> (m < 0 \<longrightarrow> format_02d m = str_int m)
   \<and> get_readings w c variable year month day station
     = request w c (XEMA_BASE_URL @ ''/variables/mesurades/'' @ str_int variable @ ''/''
                    @ str_int year @ ''/'' @ format_02d month @ ''/'' @ format_02d day
                    @ (if truthy station then ''?codiEstacio='' @ the station else ''''))
   \<and> get_general_forecast w c year month day
     = request w c (PRONOSTIC_BASE_URL @ ''/catalunya/'' @ str_int year @ ''/''
                    @ format_02d month @ ''/'' @ format_02d day)
   \<and> get_regional_forecast w c year month day
     = request w c (PRONOSTIC_BASE_URL @ ''/comarcal/'' @ str_int year @ ''/''
                    @ format_02d month @ ''/'' @ format_02d day)"
proof (intro conjI impI)
  assume "1 \<le> m \<and> m \<le> 9"
  then show "format_02d m = [CHR ''0'', digit_char (nat m)]"
    by (simp add: format_02d_small)
next
  assume "0 \<le> m \<and> m \<le> 99"
  then show "format_02d m = two_digits m"
    by (simp add: format_02d_two_digits)
next
  assume "0 \<le> m \<and> m \<le> 99"
  then have "format_02d m = two_digits m"
    by (simp add: format_02d_two_digits)
  then show "length (format_02d m) = 2"
    by (simp add: two_digits_def)
next
  show "format_02d 3 = ''03''" and "format_02d 12 = ''12''" and "format_02d 31 = ''31''"
    by (simp_all add: format_02d_def str_nat.simps digit_char_def)
next
  assume "10 \<le> m"
  then show "format_02d m = str_int m"
    by (rule format_02d_large)
next
  assume "m < 0"
  then show "format_02d m = str_int m"
    by (rule format_02d_negative)
qed (simp_all add: get_readings_def get_general_forecast_def get_regional_forecast_def Let_def)

theorem month_and_day_are_zero_padded_witness:
  "(1::int) \<le> 7 \<and> (7::int) \<le> 9 \<and> format_02d 7 = ''07''
   \<and> (10::int) \<le> 13 \<and> format_02d 13 = ''13''
   \<and> (10::int) \<le> 123 \<and> format_02d 123 = ''123''
   \<and> (-1::int) < 0 \<and> format_02d (-1) = ''-1''
   \<and> format_02d 0 = ''00''
   \<and> urls (get_general_forecast (fixture_world 200 ''[]'' [(''[]'', JArray [])]) fixture_client
             2026 13 0)
     = [''https://api.meteo.cat/pronostic/v1/catalunya/2026/13/00'']
   \<and> urls (get_readings (fixture_world 200 ''[]'' [(''[]'', JArray [])]) fixture_client
             32 2024 3 7 None)
     = [''https://api.meteo.cat/xema/v1/variables/mesurades/32/2024/03/07'']"
proof -
  let ?w = "fixture_world 200 ''[]'' [(''[]'', JArray [])]"
  note at = month_and_day_are_zero_padded [where w = ?w and c = fixture_client and variable = 32
      and station = None]
  have a: "format_02d 7 = ''07''"
    using at [of 7 2024 3 7] by (simp add: digit_char_def two_digits_def)
  have b: "format_02d 13 = ''13''"
    using at [of 13 2024 3 7] by (simp add: str_int_def str_nat.simps digit_char_def two_digits_def)
  have c: "format_02d 123 = ''123''"
    using at [of 123 2024 3 7] by (simp add: str_int_def str_nat.simps digit_char_def two_digits_def)
  have d: "format_02d (-1) = ''-1''"
    using at [of "-1" 2024 3 7] by (simp add: str_int_def str_nat.simps digit_char_def two_digits_def)
  have e: "format_02d 0 = ''00''"
    using at [of 0 2024 3 7] by (simp add: two_digits_def digit_char_def)
  have f: "urls (get_general_forecast ?w fixture_client 2026 13 0)
      = [''https://api.meteo.cat/pronostic/v1/catalunya/2026/13/00'']"
    using at [of 0 2026 13 0]
    by (simp add: request_urls PRONOSTIC_BASE_URL_def str_int_def str_nat.simps digit_char_def
        b e)
  have g: "urls (get_readings ?w fixture_client 32 2024 3 7 None)
      = [''https://api.meteo.cat/xema/v1/variables/mesurades/32/2024/03/07'']"
    using at [of 7 2024 3 7]
    by (simp add: request_urls XEMA_BASE_URL_def str_int_def str_nat.simps digit_char_def a)
  show ?thesis
    using a b c d e f g by simp
qed

section \<open>The URLs against the documented templates\<close>

lemma supplied_truthy:
  "nonempty_if_supplied s \<Longrightarrow>
   optional_query [(name, s)] = (if truthy s then ''?'' @ name @ ''='' @ the s else [])"
  by (cases s) (simp_all add: optional_query_def)

lemma documented_all_stations:
  assumes "nonempty_if_supplied state" and "nonempty_if_supplied date"
  shows "urls (get_all_stations w c state date)
     = [XEMA_BASE_URL @ ''/estacions/metadades''
        @ optional_query [(''estat'', state), (''data'', date)]]"
  using assms
  by (cases state; cases date)
     (simp_all add: get_all_stations_def Let_def request_urls optional_query_def)

lemma valid_date_year:
  assumes "valid_date y m d"
  shows "str_int y = four_digits y"
proof -
  have "1000 \<le> nat y" and "nat y < 10000"
    using assms unfolding valid_date_def by linarith+
  then have "str_nat (nat y) = four_digits y"
    unfolding four_digits_def by (rule str_nat_four)
  moreover have "\<not> y < 0"
    using assms by (simp add: valid_date_def)
  ultimately show ?thesis
    by (simp add: str_int_def)
qed

lemma valid_date_month: "valid_date y m d \<Longrightarrow> format_02d m = two_digits m"
  by (simp add: valid_date_def format_02d_two_digits)

lemma valid_date_day: "valid_date y m d \<Longrightarrow> format_02d d = two_digits d"
  by (simp add: valid_date_def format_02d_two_digits)

lemma documented_readings:
  assumes "valid_date y m d" and "nonempty_if_supplied s"
  shows "urls (get_readings w c v y m d s)
     = [XEMA_BASE_URL @ ''/variables/mesurades/'' @ str_int v @ ''/'' @ four_digits y
        @ ''/'' @ two_digits m @ ''/'' @ two_digits d @ optional_query [(''codiEstacio'', s)]]"
  using assms
  by (simp add: get_readings_def Let_def request_urls supplied_truthy valid_date_year [OF assms(1)]
      valid_date_month [OF assms(1)] valid_date_day [OF assms(1)])

lemma documented_forecasts:
  assumes "valid_date y m d"
  shows "urls (get_general_forecast w c y m d)
       = [PRONOSTIC_BASE_URL @ ''/catalunya/'' @ four_digits y @ ''/'' @ two_digits m
          @ ''/'' @ two_digits d]"
    and "urls (get_regional_forecast w c y m d)
       = [PRONOSTIC_BASE_URL @ ''/comarcal/'' @ four_digits y @ ''/'' @ two_digits m
          @ ''/'' @ two_digits d]"
  by (simp_all add: get_general_forecast_def get_regional_forecast_def Let_def request_urls
      valid_date_year [OF assms] valid_date_month [OF assms] valid_date_day [OF assms])

lemma documented_url_matches: "valid_params op \<Longrightarrow> urls (invoke w c op) = [documented_url op]"
proof (cases op)
  case (Get_all_stations state date)
  assume "valid_params op"
  with Get_all_stations show ?thesis
    by (simp add: documented_all_stations)
next
  case (Get_station_variables code state)
  assume "valid_params op"
  with Get_station_variables show ?thesis
    by (simp add: get_station_variables_def Let_def request_urls supplied_truthy)
next
  case (Get_latest_readings v s)
  assume "valid_params op"
  with Get_latest_readings show ?thesis
    by (simp add: get_latest_readings_def Let_def request_urls supplied_truthy)
next
  case (Get_readings v y m d s)
  assume "valid_params op"
  with Get_readings show ?thesis
    by (simp add: documented_readings)
next
  case (Get_general_forecast y m d)
  assume "valid_params op"
  with Get_general_forecast show ?thesis
    by (simp add: documented_forecasts)
next
  case (Get_regional_forecast y m d)
  assume "valid_params op"
  with Get_regional_forecast show ?thesis
    by (simp add: documented_forecasts)
qed (simp_all add: method_defs request_urls)

text \<open>
  Claim C1. For every operation invoked with valid parameters, the one URL the client
  requests is the documented template of that operation, filled in. In particular
  \<^verbatim>\<open>get_readings(variable_code=32, year=2024, month=3, day=7, station_code="UG")\<close> requests
  \<^verbatim>\<open>{xema-base}/variables/mesurades/32/2024/03/07?codiEstacio=UG\<close>, and the three reference
  operations request the fixed paths \<^verbatim>\<open>/municipis\<close>, \<^verbatim>\<open>/comarques\<close> and \<^verbatim>\<open>/simbols\<close> under the
  reference base.
\<close>

theorem urls_match_documented_templates:
  "(valid_params op \<longrightarrow> urls (invoke w c op) = [documented_url op])
   \<and> urls (get_readings w c 32 2024 3 7 (Some ''UG''))
     = [''https://api.meteo.cat/xema/v1/variables/mesurades/32/2024/03/07?codiEstacio=UG'']
   \<and> urls (get_municipalities w c) = [''https://api.meteo.cat/referencia/v1/municipis'']
   \<and> urls (get_regions w c) = [''https://api.meteo.cat/referencia/v1/comarques'']
   \<and> urls (get_weather_symbols w c) = [''https://api.meteo.cat/referencia/v1/simbols'']"
proof (intro conjI impI)
  show "urls (get_readings w c 32 2024 3 7 (Some ''UG''))
     = [''https://api.meteo.cat/xema/v1/variables/mesurades/32/2024/03/07?codiEstacio=UG'']"
    by (simp add: get_readings_def Let_def request_urls XEMA_BASE_URL_def str_int_def
        format_02d_def str_nat.simps digit_char_def)
qed (simp_all add: documented_url_matches get_municipalities_def get_regions_def
    get_weather_symbols_def request_urls REFERENCIA_BASE_URL_def)

theorem urls_match_documented_templates_witness:
  "valid_params (Get_all_stations (Some ''ope'') (Some ''2024-03-07Z''))
   \<and> urls (invoke (fixture_world 200 ''[]'' [(''[]'', JArray [])]) fixture_client
             (Get_all_stations (Some ''ope'') (Some ''2024-03-07Z'')))
     = [''https://api.meteo.cat/xema/v1/estacions/metadades?estat=ope&data=2024-03-07Z'']
   \<and> valid_params (Get_regional_forecast 2026 12 31)
   \<and> urls (invoke (fixture_world 200 ''[]'' [(''[]'', JArray [])]) fixture_client
             (Get_regional_forecast 2026 12 31))
     = [''https://api.meteo.cat/pronostic/v1/comarcal/2026/12/31'']"
  using urls_match_documented_templates
      [of "Get_all_stations (Some ''ope'') (Some ''2024-03-07Z'')"
        "fixture_world 200 ''[]'' [(''[]'', JArray [])]" fixture_client]
    urls_match_documented_templates
      [of "Get_regional_forecast 2026 12 31"
        "fixture_world 200 ''[]'' [(''[]'', JArray [])]" fixture_client]
  by (simp add: valid_date_def optional_query_def XEMA_BASE_URL_def PRONOSTIC_BASE_URL_def
      four_digits_def two_digits_def digit_char_def)

section \<open>Query parameters in the requested URL\<close>

























lemmas query_defs =
  has_param_def query_params_def query_string_def without_fragment_def
  without_tabs_and_newlines_def tab_or_newline_def name_value_def


text \<open>
  Why a plain value holds no tab or newline: a state that is one line feed is supplied and not
  empty, and what a parser finds in the URL is \<^verbatim>\<open>estat\<close> with an empty value.
\<close>

lemma line_feed_value_reads_as_empty:
  "urls (get_all_stations w c (Some [CHR 0x0A]) None)
     = [''https://api.meteo.cat/xema/v1/estacions/metadades?estat='' @ [CHR 0x0A]]
   \<and> query_params (''https://api.meteo.cat/xema/v1/estacions/metadades?estat='' @ [CHR 0x0A])
     = [(''estat'', '''')]"
  by (simp add: get_all_stations_def Let_def request_urls XEMA_BASE_URL_def query_defs)




end
